theory Spec2Isabelle
  imports Main "HOL-Library.Sublist"
begin

section \<open>Exceptions\<close>

text \<open>
  The instances of Python's \<^verbatim>\<open>Exception\<close> that the code can meet:
  \<^verbatim>\<open>KeyError\<close> from a dictionary lookup, \<^verbatim>\<open>subprocess.CalledProcessError\<close>
  (return code and command) from \<^verbatim>\<open>subprocess.run(..., check=True)\<close>,
  \<^verbatim>\<open>OSError\<close> (with its subclasses \<^verbatim>\<open>FileNotFoundError\<close>,
  \<^verbatim>\<open>PermissionError\<close>, ...) from the operating system, \<^verbatim>\<open>ValueError\<close> from an
  argument that no process can be given, and any other exception the download tool
  raises. \<^verbatim>\<open>KeyboardInterrupt\<close> and \<^verbatim>\<open>SystemExit\<close> are not instances of
  \<^verbatim>\<open>Exception\<close> and are not modelled.
\<close>

datatype exn =
    KeyError string
  | CalledProcessError int "string list"
  | OSError string
  | ValueError string
  | ToolError string

section \<open>Logger (src/libs/common/Logger/Logger.py)\<close>

datatype LoggerLevel = DEBUG | INFO | WARNING | ERROR | CRITICAL

fun level_value :: "LoggerLevel \<Rightarrow> int" where
  "level_value DEBUG = 10"
| "level_value INFO = 20"
| "level_value WARNING = 30"
| "level_value ERROR = 40"
| "level_value CRITICAL = 50"

text \<open>
  A message is an f-string: literal text and interpolated exception objects. The text
  that \<^verbatim>\<open>str(e)\<close> produces for an exception is left to the Python runtime, so an
  interpolated exception is kept as the object.
\<close>

datatype fragment = Lit string | Str exn

text \<open>
  The state the program acts on: the class attribute \<^verbatim>\<open>Logger.debug_level\<close>, the
  records handed to the \<^verbatim>\<open>logging\<close> module, the regular files that exist, the
  commands this module passed to \<^verbatim>\<open>subprocess.run\<close>, in order, and the commands
  of the processes that the download tool started on its own, in order.
\<close>

record world =
  debug_level :: int
  records :: "(LoggerLevel \<times> fragment list) list"
  files :: "string set"
  calls :: "string list list"
  tool_processes :: "string list list"

definition write_debug :: "fragment list \<Rightarrow> world \<Rightarrow> world" where
  "write_debug message w =
     (if debug_level w \<le> level_value DEBUG
      then w\<lparr>records := records w @ [(DEBUG, message)]\<rparr> else w)"

definition write_info :: "fragment list \<Rightarrow> world \<Rightarrow> world" where
  "write_info message w =
     (if debug_level w \<le> level_value INFO
      then w\<lparr>records := records w @ [(INFO, message)]\<rparr> else w)"

definition write_warning :: "fragment list \<Rightarrow> world \<Rightarrow> world" where
  "write_warning message w =
     (if debug_level w \<le> level_value WARNING
      then w\<lparr>records := records w @ [(WARNING, message)]\<rparr> else w)"

definition write_error :: "fragment list \<Rightarrow> world \<Rightarrow> world" where
  "write_error message w =
     (if debug_level w \<le> level_value ERROR
      then w\<lparr>records := records w @ [(ERROR, message)]\<rparr> else w)"

definition write_critical :: "fragment list \<Rightarrow> world \<Rightarrow> world" where
  "write_critical message w =
     (if debug_level w \<le> level_value CRITICAL
      then w\<lparr>records := records w @ [(CRITICAL, message)]\<rparr> else w)"

section \<open>The external collaborators\<close>

text \<open>
  What a started process does is not code of this repository: it either cannot be
  started (the executable is missing: an \<^verbatim>\<open>OSError\<close>) or exits with a return code,
  and it may change the files.
\<close>

datatype proc_outcome = Exited int | NotStarted string

text \<open>
  One run of the download tool, seen from the Fetcher: it returns, raises, writes a
  file, deletes a file, starts a process of its own (it merges separately downloaded
  streams with \<^verbatim>\<open>ffmpeg\<close>), or reports a progress event (a dictionary) to the
  registered hooks and goes on according to whether they returned or raised.
\<close>

datatype ydl_run =
    Finished
  | Raises exn
  | Writes string ydl_run
  | Deletes string ydl_run
  | Starts "string list" ydl_run
  | Reports "string \<rightharpoonup> string" "exn + unit \<Rightarrow> ydl_run"

type_synonym hook = "(string \<rightharpoonup> string) \<Rightarrow> world \<Rightarrow> (exn + unit) \<times> world"

record download_options =
  outtmpl :: string
  format :: string
  skip_unavailable_fragments :: bool
  ignoreerrors :: bool
  progress_hooks :: "hook list"
  noplaylist :: bool

record env =
  os_makedirs :: "string \<Rightarrow> exn option"
  process :: "string list \<Rightarrow> string set \<Rightarrow> proc_outcome \<times> string set"
  youtube_dl :: "download_options \<Rightarrow> string list \<Rightarrow> ydl_run"

text \<open>\<^verbatim>\<open>for ph in progress_hooks: ph(status)\<close>: the first hook that raises ends the loop.\<close>

fun call_hooks :: "hook list \<Rightarrow> (string \<rightharpoonup> string) \<Rightarrow> world \<Rightarrow> (exn + unit) \<times> world" where
  "call_hooks [] d w = (Inr (), w)"
| "call_hooks (h # hs) d w =
     (case h d w of
        (Inl e, w') \<Rightarrow> (Inl e, w')
      | (Inr _, w') \<Rightarrow> call_hooks hs d w')"

primrec run_ydl :: "hook list \<Rightarrow> ydl_run \<Rightarrow> world \<Rightarrow> (exn + unit) \<times> world" where
  "run_ydl hs Finished w = (Inr (), w)"
| "run_ydl hs (Raises e) w = (Inl e, w)"
| "run_ydl hs (Writes p t) w = run_ydl hs t (w\<lparr>files := insert p (files w)\<rparr>)"
| "run_ydl hs (Deletes p t) w = run_ydl hs t (w\<lparr>files := files w - {p}\<rparr>)"
| "run_ydl hs (Starts cmd t) w =
     run_ydl hs t (w\<lparr>tool_processes := tool_processes w @ [cmd]\<rparr>)"
| "run_ydl hs (Reports d k) w =
     (case call_hooks hs d w of (r, w') \<Rightarrow> run_ydl hs (k r) w')"

section \<open>Library functions of Python\<close>

text \<open>
  \<^verbatim>\<open>s.rsplit(sep, 1)\<close> for a separator of one character: the text before the last
  occurrence of the separator and the text after it, or the string alone when the
  separator does not occur.
\<close>

definition rsplit1 :: "char \<Rightarrow> string \<Rightarrow> string list" where
  "rsplit1 sep s =
     (if sep \<in> set s
      then [rev (tl (dropWhile (\<lambda>c. c \<noteq> sep) (rev s))),
            rev (takeWhile (\<lambda>c. c \<noteq> sep) (rev s))]
      else [s])"

text \<open>\<^verbatim>\<open>os.path.join(a, b)\<close> of \<^verbatim>\<open>posixpath\<close>, for two components.\<close>

definition os_path_join :: "string \<Rightarrow> string \<Rightarrow> string" where
  "os_path_join a b =
     (if b \<noteq> [] \<and> hd b = CHR ''/'' then b
      else if a = [] \<or> last a = CHR ''/'' then a @ b
      else a @ ''/'' @ b)"

text \<open>
  \<^verbatim>\<open>os.remove(path)\<close>: deletes the regular file, or raises \<^verbatim>\<open>FileNotFoundError\<close>
  (an \<^verbatim>\<open>OSError\<close>) when there is none.
\<close>

definition os_remove :: "string \<Rightarrow> world \<Rightarrow> (exn + unit) \<times> world" where
  "os_remove path w =
     (if path \<in> files w then (Inr (), w\<lparr>files := files w - {path}\<rparr>)
      else (Inl (OSError path), w))"

text \<open>
  \<^verbatim>\<open>subprocess.run(command, check=True)\<close>: an argument with an embedded null byte
  raises \<^verbatim>\<open>ValueError\<close> before any process is started; otherwise the command is
  handed to the operating system, where a process that cannot be started raises
  \<^verbatim>\<open>OSError\<close> and one that exits non-zero raises \<^verbatim>\<open>CalledProcessError\<close>.
\<close>

definition subprocess_run :: "env \<Rightarrow> string list \<Rightarrow> world \<Rightarrow> (exn + unit) \<times> world" where
  "subprocess_run en cmd w =
     (if CHR 0x00 \<in> set (concat cmd)
      then (Inl (ValueError ''embedded null byte''), w\<lparr>calls := calls w @ [cmd]\<rparr>)
      else
        (case process en cmd (files w) of
           (NotStarted msg, fs) \<Rightarrow>
             (Inl (OSError msg), w\<lparr>files := fs, calls := calls w @ [cmd]\<rparr>)
         | (Exited rc, fs) \<Rightarrow>
             (if rc \<noteq> 0
              then (Inl (CalledProcessError rc cmd), w\<lparr>files := fs, calls := calls w @ [cmd]\<rparr>)
              else (Inr (), w\<lparr>files := fs, calls := calls w @ [cmd]\<rparr>))))"

section \<open>YouTubeDownloader (src/libs/youtube_downloader/YouTubeDownloader.py)\<close>

text \<open>\<^verbatim>\<open>output_filename = filename.rsplit('.', 1)[0] + '.mp3'\<close>\<close>

definition output_filename :: "string \<Rightarrow> string" where
  "output_filename filename = (rsplit1 CHR ''.'' filename) ! 0 @ ''.mp3''"

definition command :: "string \<Rightarrow> string \<Rightarrow> string list" where
  "command filename out =
     [''ffmpeg'', ''-i'', filename, ''-vn'', ''-ar'', ''44100'', ''-ac'', ''2'',
      ''-b:a'', ''320k'', ''-f'', ''mp3'', out]"

text \<open>The body of the \<^verbatim>\<open>try\<close> block of \<^verbatim>\<open>_progress_hook\<close>.\<close>

definition convert_body :: "env \<Rightarrow> string \<Rightarrow> string \<Rightarrow> world \<Rightarrow> (exn + unit) \<times> world" where
  "convert_body en filename out w =
     (case subprocess_run en (command filename out) w of
        (Inl e, w1) \<Rightarrow> (Inl e, w1)
      | (Inr _, w1) \<Rightarrow>
          (let w2 = write_info [Lit (''Converted '' @ filename @ '' to MP3: '' @ out)] w1
           in case os_remove filename w2 of
                (Inl e, w3) \<Rightarrow> (Inl e, w3)
              | (Inr _, w3) \<Rightarrow>
                  (Inr (), write_debug [Lit (''Deleted original file: '' @ filename)] w3)))"

text \<open>
  \<^verbatim>\<open>_progress_hook(self, d, convert_to_mp3)\<close>. Only
  \<^verbatim>\<open>subprocess.CalledProcessError\<close> is caught.
\<close>

definition progress_hook :: "env \<Rightarrow> (string \<rightharpoonup> string) \<Rightarrow> bool \<Rightarrow> world \<Rightarrow> (exn + unit) \<times> world" where
  "progress_hook en d convert_to_mp3 w =
     (case d ''status'' of
        None \<Rightarrow> (Inl (KeyError ''status''), w)
      | Some status \<Rightarrow>
          if status = ''finished'' then
            (case d ''filename'' of
               None \<Rightarrow> (Inl (KeyError ''filename''), w)
             | Some filename \<Rightarrow>
                 (let w1 = write_info [Lit (''Downloaded file: '' @ filename)] w in
                  if convert_to_mp3 then
                    (let w2 = write_debug [Lit (''Converting '' @ filename @ '' to MP3...'')] w1
                     in case convert_body en filename (output_filename filename) w2 of
                          (Inl (CalledProcessError rc cmd), w3) \<Rightarrow>
                            (Inr (),
                             write_error [Lit (''Error converting '' @ filename @ '' to MP3: ''),
                                          Str (CalledProcessError rc cmd)] w3)
                        | (Inl e, w3) \<Rightarrow> (Inl e, w3)
                        | (Inr u, w3) \<Rightarrow> (Inr u, w3))
                  else (Inr (), w1)))
          else (Inr (), w))"

text \<open>The dictionary \<^verbatim>\<open>ydl_opts\<close> built by \<^verbatim>\<open>_download_from_youtube\<close>.\<close>

definition ydl_opts :: "env \<Rightarrow> string \<Rightarrow> bool \<Rightarrow> bool \<Rightarrow> download_options" where
  "ydl_opts en path keep_audio_only isPlaylist =
     \<lparr> outtmpl = os_path_join path ''%(playlist_title)s/%(playlist_index)s - %(title)s.%(ext)s'',
       format = (if keep_audio_only then ''bestaudio/best'' else ''bestvideo+bestaudio/best''),
       skip_unavailable_fragments = True,
       ignoreerrors = True,
       progress_hooks = [\<lambda>d. progress_hook en d keep_audio_only],
       noplaylist = (if isPlaylist then True else False) \<rparr>"

definition download_from_youtube ::
  "env \<Rightarrow> string \<Rightarrow> string \<Rightarrow> bool \<Rightarrow> bool \<Rightarrow> world \<Rightarrow> (exn + unit) \<times> world" where
  "download_from_youtube en url path keep_audio_only isPlaylist w =
     (let w1 = write_debug [Lit (''Starting download for playlist: '' @ url)] w;
          r = (case os_makedirs en path of
                 Some e \<Rightarrow> (Inl e, w1)
               | None \<Rightarrow>
                   (let opts = ydl_opts en path keep_audio_only isPlaylist
                    in run_ydl (progress_hooks opts) (youtube_dl en opts [url]) w1))
      in case r of
           (Inl e, w2) \<Rightarrow>
             (Inr (),
              write_error [Lit (''Error downloading playlist: '' @ url @ '', ''), Str e] w2)
         | (Inr u, w2) \<Rightarrow> (Inr u, w2))"

definition download_video :: "env \<Rightarrow> string \<Rightarrow> string \<Rightarrow> bool \<Rightarrow> world \<Rightarrow> (exn + unit) \<times> world" where
  "download_video en url path keep_audio_only w =
     download_from_youtube en url path keep_audio_only False w"

definition download_playlist :: "env \<Rightarrow> string \<Rightarrow> string \<Rightarrow> bool \<Rightarrow> world \<Rightarrow> (exn + unit) \<times> world" where
  "download_playlist en url path keep_audio_only w =
     download_from_youtube en url path keep_audio_only True w"

section \<open>Example environments\<close>


definition ffmpeg_ok :: "string list \<Rightarrow> string set \<Rightarrow> proc_outcome \<times> string set" where
  "ffmpeg_ok cmd fs = (Exited 0, insert (last cmd) fs)"


definition ffmpeg_missing :: "string list \<Rightarrow> string set \<Rightarrow> proc_outcome \<times> string set" where
  "ffmpeg_missing cmd fs = (NotStarted ''ffmpeg'', fs)"

definition event :: "string \<Rightarrow> string \<Rightarrow> (string \<rightharpoonup> string)" where
  "event status filename = [''status'' \<mapsto> status, ''filename'' \<mapsto> filename]"

text \<open>
  A download tool that writes one file, reports it as downloading and then as
  finished, and lets an exception of the hooks through; and one that raises for the
  whole batch.
\<close>

definition single_item :: "string \<Rightarrow> download_options \<Rightarrow> string list \<Rightarrow> ydl_run" where
  "single_item filename opts urls =
     Writes filename
       (Reports (event ''downloading'' filename)
          (\<lambda>r. Reports (event ''finished'' filename)
             (\<lambda>r. case r of Inl e \<Rightarrow> Raises e | Inr _ \<Rightarrow> Finished)))"

definition broken_batch :: "download_options \<Rightarrow> string list \<Rightarrow> ydl_run" where
  "broken_batch opts urls = Raises (ToolError ''unable to download'')"

text \<open>
  A download tool that fetches the video stream and the audio stream of one item as
  two files, reports each as finished, merges them with \<^verbatim>\<open>ffmpeg\<close> into one file
  and deletes the two parts.
\<close>

definition merged_item :: "download_options \<Rightarrow> string list \<Rightarrow> ydl_run" where
  "merged_item opts urls =
     Writes ''./out/NA/NA - Title.f137.mp4''
       (Reports (event ''finished'' ''./out/NA/NA - Title.f137.mp4'')
          (\<lambda>r. Writes ''./out/NA/NA - Title.f251.webm''
             (Reports (event ''finished'' ''./out/NA/NA - Title.f251.webm'')
                (\<lambda>r. Starts [''ffmpeg'', ''-y'', ''-i'', ''./out/NA/NA - Title.f137.mp4'',
                              ''-i'', ''./out/NA/NA - Title.f251.webm'', ''-c'', ''copy'',
                              ''./out/NA/NA - Title.mp4'']
                   (Writes ''./out/NA/NA - Title.mp4''
                      (Deletes ''./out/NA/NA - Title.f137.mp4''
                         (Deletes ''./out/NA/NA - Title.f251.webm'' Finished)))))))"

text \<open>
  A download tool that shows which value of \<^verbatim>\<open>noplaylist\<close> it was given: it
  raises when the option is true and returns when it is false.
\<close>

definition noplaylist_probe :: "download_options \<Rightarrow> string list \<Rightarrow> ydl_run" where
  "noplaylist_probe opts urls =
     (if noplaylist opts then Raises (ToolError ''noplaylist is set'') else Finished)"

definition example_env ::
  "(string list \<Rightarrow> string set \<Rightarrow> proc_outcome \<times> string set) \<Rightarrow>
   (download_options \<Rightarrow> string list \<Rightarrow> ydl_run) \<Rightarrow> env" where
  "example_env ffmpeg ydl = \<lparr> os_makedirs = (\<lambda>p. None), process = ffmpeg, youtube_dl = ydl \<rparr>"

definition world0 :: world where
  "world0 = \<lparr> debug_level = 10, records = [], files = {}, calls = [], tool_processes = [] \<rparr>"

section \<open>Notions used in the statements\<close>

text \<open>
  A template of the download tool refers to a field of the item as \<^verbatim>\<open>%(name)s\<close>.
\<close>

definition mentions_field :: "string \<Rightarrow> string \<Rightarrow> bool" where
  "mentions_field name template = sublist (''%('' @ name @ '')s'') template"

section \<open>Splitting at the last dot\<close>

lemma takeWhile_until:
  "sep \<notin> set xs \<Longrightarrow> takeWhile (\<lambda>c. c \<noteq> sep) (xs @ sep # ys) = xs"
  by (induction xs) auto

lemma dropWhile_until:
  "sep \<notin> set xs \<Longrightarrow> dropWhile (\<lambda>c. c \<noteq> sep) (xs @ sep # ys) = sep # ys"
  by (induction xs) auto

lemma rsplit1_at_last: "sep \<notin> set b \<Longrightarrow> rsplit1 sep (a @ sep # b) = [a, b]"
proof -
  assume h: "sep \<notin> set b"
  then have h': "sep \<notin> set (rev b)" by simp
  have r: "rev (a @ sep # b) = rev b @ sep # rev a" by simp
  show ?thesis
    unfolding rsplit1_def r takeWhile_until [OF h'] dropWhile_until [OF h'] by simp
qed

lemma rsplit1_absent: "sep \<notin> set s \<Longrightarrow> rsplit1 sep s = [s]"
  by (simp add: rsplit1_def)

lemma output_filename_ext:
  "CHR ''.'' \<notin> set ext \<Longrightarrow> output_filename (stem @ ''.'' @ ext) = stem @ ''.mp3''"
  using rsplit1_at_last [of "CHR ''.''" ext stem] by (simp add: output_filename_def)

lemma output_filename_no_dot:
  "CHR ''.'' \<notin> set f \<Longrightarrow> output_filename f = f @ ''.mp3''"
  by (simp add: output_filename_def rsplit1_absent)




section \<open>The logger touches neither the files nor the processes\<close>

lemma calls_write [simp]:
  "calls (write_debug m w) = calls w" "calls (write_info m w) = calls w"
  "calls (write_error m w) = calls w"
  by (simp_all add: write_debug_def write_info_def write_error_def)

lemma files_write [simp]:
  "files (write_debug m w) = files w" "files (write_info m w) = files w"
  "files (write_error m w) = files w"
  by (simp_all add: write_debug_def write_info_def write_error_def)

section \<open>The try block of the hook, by outcome of the process\<close>





section \<open>Without conversion this module runs no command\<close>

lemma calls_progress_hook_video: "calls (snd (progress_hook en d False w)) = calls w"
  by (simp add: progress_hook_def Let_def split: option.splits)

lemma calls_call_hooks_video:
  "calls (snd (call_hooks [\<lambda>d. progress_hook en d False] d w)) = calls w"
  using calls_progress_hook_video [of en d w]
  by (cases "progress_hook en d False w") (auto split: sum.splits)

lemma calls_run_ydl_video:
  "calls (snd (run_ydl [\<lambda>d. progress_hook en d False] t w)) = calls w"
proof (induction t arbitrary: w)
  case (Reports d k)
  obtain r w' where c: "call_hooks [\<lambda>d. progress_hook en d False] d w = (r, w')"
    by (cases "call_hooks [\<lambda>d. progress_hook en d False] d w")
  have "calls w' = calls w" using calls_call_hooks_video [of en d w] c by simp
  then show ?case using Reports [of "k r" w'] c by simp
qed simp_all

lemma download_from_youtube_video_calls:
  "calls (snd (download_from_youtube en url path False isPlaylist w)) = calls w"
proof -
  let ?w1 = "write_debug [Lit (''Starting download for playlist: '' @ url)] w"
  let ?opts = "ydl_opts en path False isPlaylist"
  have h: "progress_hooks ?opts = [\<lambda>d. progress_hook en d False]"
    by (simp add: ydl_opts_def)
  show ?thesis
  proof (cases "os_makedirs en path")
    case (Some e)
    then show ?thesis by (simp add: download_from_youtube_def Let_def)
  next
    case None
    obtain r w2 where run: "run_ydl (progress_hooks ?opts) (youtube_dl en ?opts [url]) ?w1 = (r, w2)"
      by (cases "run_ydl (progress_hooks ?opts) (youtube_dl en ?opts [url]) ?w1")
    have "calls w2 = calls w"
      using calls_run_ydl_video [of en "youtube_dl en ?opts [url]" ?w1] run h by simp
    then show ?thesis using None run
      by (cases r) (simp_all add: download_from_youtube_def Let_def)
  qed
qed

section \<open>The Fetcher returns\<close>

lemma download_from_youtube_returns:
  "fst (download_from_youtube en url path a p w) = Inr ()"
  by (simp add: download_from_youtube_def Let_def split: prod.splits sum.splits option.splits)

section \<open>The output template\<close>

lemma os_path_join_ends: "\<exists>pre. os_path_join a b = pre @ b"
  by (simp add: os_path_join_def)

lemma sublist_in_join:
  assumes "b = l @ xs @ r"
  shows "sublist xs (os_path_join a b)"
proof -
  obtain pre where p: "os_path_join a b = pre @ b" using os_path_join_ends by blast
  have "os_path_join a b = (pre @ l) @ xs @ r" using p assms by simp
  then show ?thesis unfolding sublist_def by blast
qed

section \<open>The claims\<close>

subsection \<open>C1\<close>

text \<open>
  C1. The hook should absorb every failure of the conversion. It catches
  \<^verbatim>\<open>subprocess.CalledProcessError\<close> and nothing else: for a "finished" event in
  audio-only mode on a machine without the \<^verbatim>\<open>ffmpeg\<close> executable,
  \<^verbatim>\<open>subprocess.run\<close> raises \<^verbatim>\<open>FileNotFoundError\<close> and the hook lets it through.
\<close>

theorem progress_hook_raises_without_ffmpeg:
  "fst (progress_hook (example_env ffmpeg_missing broken_batch)
          (event ''finished'' ''./out/1 - Title.webm'') True
          (world0\<lparr>files := {''./out/1 - Title.webm''}\<rparr>)) = Inl (OSError ''ffmpeg'')"
  by (simp add: progress_hook_def convert_body_def subprocess_run_def example_env_def
      ffmpeg_missing_def event_def command_def output_filename_def rsplit1_def Let_def)

subsection \<open>C2\<close>



subsection \<open>C3\<close>




subsection \<open>C4\<close>

text \<open>
  C4, as the code has it. When audio-only is not requested, this module passes no
  command to \<^verbatim>\<open>subprocess.run\<close> during the whole call, whatever the download tool
  does (also when it starts processes of its own) and whatever events it reports: the
  list of commands is the one there was. The same holds for one call of the hook on
  any event.
\<close>

theorem video_never_transcodes:
  "calls (snd (download_from_youtube en url path False isPlaylist w)) = calls w \<and>
   calls (snd (download_video en url path False w)) = calls w \<and>
   calls (snd (download_playlist en url path False w)) = calls w \<and>
   calls (snd (progress_hook en d False w)) = calls w"
  by (simp add: download_from_youtube_video_calls calls_progress_hook_video
      download_video_def download_playlist_def)

theorem video_never_transcodes_witness:
  "calls (snd (download_from_youtube (example_env ffmpeg_ok merged_item)
                 ''https://example/watch?v=abc'' ''./out'' False False world0)) = [] \<and>
   files (snd (download_from_youtube (example_env ffmpeg_ok merged_item)
                 ''https://example/watch?v=abc'' ''./out'' False False world0)) =
     {''./out/NA/NA - Title.mp4''}"
proof -
  have "files (snd (download_from_youtube (example_env ffmpeg_ok merged_item)
                 ''https://example/watch?v=abc'' ''./out'' False False world0)) =
     {''./out/NA/NA - Title.mp4''}"
    by (simp add: download_from_youtube_def example_env_def merged_item_def ydl_opts_def
        progress_hook_def event_def world0_def write_debug_def write_info_def Let_def
        insert_Diff_if)
  then show ?thesis
    using video_never_transcodes [of "example_env ffmpeg_ok merged_item"
        "''https://example/watch?v=abc''" "''./out''" False world0]
    by (simp add: world0_def)
qed

text \<open>
  C4 as stated fails: the format requested without audio-only is
  \<^verbatim>\<open>bestvideo+bestaudio/best\<close>, for which the download tool fetches two streams and
  merges them with \<^verbatim>\<open>ffmpeg\<close>, so the tool is started during the invocation.
\<close>

theorem video_merge_counterexample:
  "format (ydl_opts (example_env ffmpeg_ok merged_item) ''./out'' False False) =
     ''bestvideo+bestaudio/best'' \<and>
   tool_processes (snd (download_from_youtube (example_env ffmpeg_ok merged_item)
                          ''https://example/watch?v=abc'' ''./out'' False False world0)) =
     [[''ffmpeg'', ''-y'', ''-i'', ''./out/NA/NA - Title.f137.mp4'',
       ''-i'', ''./out/NA/NA - Title.f251.webm'', ''-c'', ''copy'',
       ''./out/NA/NA - Title.mp4'']]"
  by (simp add: download_from_youtube_def example_env_def merged_item_def ydl_opts_def
      progress_hook_def event_def world0_def write_debug_def write_info_def Let_def)

subsection \<open>C5\<close>

text \<open>
  C5. The format selector in the options is \<^verbatim>\<open>bestaudio/best\<close> when audio-only
  is requested and \<^verbatim>\<open>bestvideo+bestaudio/best\<close> when it is not.
\<close>

theorem format_selector:
  "format (ydl_opts en path True isPlaylist) = ''bestaudio/best'' \<and>
   format (ydl_opts en path False isPlaylist) = ''bestvideo+bestaudio/best''"
  by (simp add: ydl_opts_def)

theorem format_selector_witness:
  "format (ydl_opts (example_env ffmpeg_ok broken_batch) ''./out'' True False) = ''bestaudio/best'' \<and>
   format (ydl_opts (example_env ffmpeg_ok broken_batch) ''./out'' False False) =
     ''bestvideo+bestaudio/best''"
  using format_selector [of "example_env ffmpeg_ok broken_batch" "''./out''" False]
  by simp

subsection \<open>C6\<close>

text \<open>
  C6. For every url, path and pair of flags, and whatever the download tool does,
  the Fetcher returns normally, with the one value \<^verbatim>\<open>None\<close>; so do
  \<^verbatim>\<open>download_video\<close> and \<^verbatim>\<open>download_playlist\<close>. When the run of the download
  tool ends with an exception, the Fetcher passes it to \<^verbatim>\<open>write_error\<close> and does
  nothing more.
\<close>

theorem download_errors_absorbed:
  "fst (download_from_youtube en url path keep_audio_only isPlaylist w) = Inr () \<and>
   fst (download_video en url path keep_audio_only w) = Inr () \<and>
   fst (download_playlist en url path keep_audio_only w) = Inr () \<and>
   (os_makedirs en path = None \<longrightarrow>
    run_ydl (progress_hooks (ydl_opts en path keep_audio_only isPlaylist))
      (youtube_dl en (ydl_opts en path keep_audio_only isPlaylist) [url])
      (write_debug [Lit (''Starting download for playlist: '' @ url)] w) = (Inl e, w2) \<longrightarrow>
    download_from_youtube en url path keep_audio_only isPlaylist w =
      (Inr (), write_error [Lit (''Error downloading playlist: '' @ url @ '', ''), Str e] w2))"
  by (simp add: download_from_youtube_returns download_video_def download_playlist_def)
     (simp add: download_from_youtube_def Let_def)

theorem download_errors_absorbed_witness:
  "os_makedirs (example_env ffmpeg_ok broken_batch) ''./out'' = None \<and>
   download_from_youtube (example_env ffmpeg_ok broken_batch)
     ''https://example/watch?v=abc'' ''./out'' True False world0 =
   (Inr (), world0\<lparr>records :=
      [(DEBUG, [Lit ''Starting download for playlist: https://example/watch?v=abc'']),
       (ERROR, [Lit ''Error downloading playlist: https://example/watch?v=abc, '',
                Str (ToolError ''unable to download'')])]\<rparr>)"
proof -
  let ?en = "example_env ffmpeg_ok broken_batch"
  let ?w1 = "write_debug [Lit (''Starting download for playlist: '' @ ''https://example/watch?v=abc'')] world0"
  have m: "os_makedirs ?en ''./out'' = None" by (simp add: example_env_def)
  have r: "run_ydl (progress_hooks (ydl_opts ?en ''./out'' True False))
             (youtube_dl ?en (ydl_opts ?en ''./out'' True False) [''https://example/watch?v=abc''])
             ?w1 = (Inl (ToolError ''unable to download''), ?w1)"
    by (simp add: example_env_def broken_batch_def)
  from download_errors_absorbed [of ?en "''https://example/watch?v=abc''" "''./out''" True False world0
      "ToolError ''unable to download''" ?w1] m r
  have "download_from_youtube ?en ''https://example/watch?v=abc'' ''./out'' True False world0 =
        (Inr (), write_error [Lit (''Error downloading playlist: '' @ ''https://example/watch?v=abc'' @ '', ''),
                             Str (ToolError ''unable to download'')] ?w1)"
    by blast
  then show ?thesis using m
    by (simp add: write_error_def write_debug_def world0_def)
qed

subsection \<open>C7\<close>

text \<open>
  C7, as the code has it. The output template does not depend on the flag: for every
  invocation it is the destination path joined with
  \<^verbatim>\<open>%(playlist_title)s/%(playlist_index)s - %(title)s.%(ext)s\<close>, so it names the
  collection and the index of the item whether or not a collection is downloaded.
\<close>

theorem outtmpl_same_for_both:
  "outtmpl (ydl_opts en path keep_audio_only isPlaylist) =
     os_path_join path ''%(playlist_title)s/%(playlist_index)s - %(title)s.%(ext)s'' \<and>
   mentions_field ''playlist_title'' (outtmpl (ydl_opts en path keep_audio_only isPlaylist)) \<and>
   mentions_field ''playlist_index'' (outtmpl (ydl_opts en path keep_audio_only isPlaylist))"
proof -
  have t: "mentions_field ''playlist_title''
             (os_path_join path ''%(playlist_title)s/%(playlist_index)s - %(title)s.%(ext)s'')"
    unfolding mentions_field_def
    by (rule sublist_in_join [where l = "[]" and r = "''/%(playlist_index)s - %(title)s.%(ext)s''"]) simp
  have i: "mentions_field ''playlist_index''
             (os_path_join path ''%(playlist_title)s/%(playlist_index)s - %(title)s.%(ext)s'')"
    unfolding mentions_field_def
    by (rule sublist_in_join [where l = "''%(playlist_title)s/''" and r = "'' - %(title)s.%(ext)s''"]) simp
  show ?thesis using t i by (simp add: ydl_opts_def)
qed

theorem outtmpl_same_for_both_witness:
  "outtmpl (ydl_opts (example_env ffmpeg_ok broken_batch) ''./out'' True False) =
     ''./out/%(playlist_title)s/%(playlist_index)s - %(title)s.%(ext)s'' \<and>
   mentions_field ''playlist_title''
     (outtmpl (ydl_opts (example_env ffmpeg_ok broken_batch) ''./out'' True False))"
  using outtmpl_same_for_both [of "example_env ffmpeg_ok broken_batch" "''./out''" True False]
  by (simp add: os_path_join_def ydl_opts_def)

text \<open>
  C7 as stated fails: for a single video the template names the collection and the
  index all the same, and it is the template of a collection download.
\<close>

theorem outtmpl_single_video_counterexample:
  "mentions_field ''playlist_title''
     (outtmpl (ydl_opts (example_env ffmpeg_ok broken_batch) ''./out'' True False)) \<and>
   mentions_field ''playlist_index''
     (outtmpl (ydl_opts (example_env ffmpeg_ok broken_batch) ''./out'' True False)) \<and>
   outtmpl (ydl_opts (example_env ffmpeg_ok broken_batch) ''./out'' True False) =
   outtmpl (ydl_opts (example_env ffmpeg_ok broken_batch) ''./out'' True True)"
  by (simp add: mentions_field_def ydl_opts_def os_path_join_def sublist_code prefix_code)

subsection \<open>C8\<close>

text \<open>
  C8. For an event whose status is not "finished" the hook returns and leaves the
  whole state as it was: no record is logged, no process is started, no file is
  deleted.
\<close>

theorem progress_hook_no_op:
  "d ''status'' = Some s \<Longrightarrow> s \<noteq> ''finished'' \<Longrightarrow> progress_hook en d c w = (Inr (), w)"
  by (simp add: progress_hook_def)

theorem progress_hook_no_op_witness:
  "event ''downloading'' ''./out/1 - Title.webm'' ''status'' = Some ''downloading'' \<and>
   ''downloading'' \<noteq> ''finished'' \<and>
   progress_hook (example_env ffmpeg_ok broken_batch)
     (event ''downloading'' ''./out/1 - Title.webm'') True world0 = (Inr (), world0)"
  using progress_hook_no_op [of "event ''downloading'' ''./out/1 - Title.webm''" "''downloading''"
      "example_env ffmpeg_ok broken_batch" True world0]
  by (simp add: event_def)

subsection \<open>C9\<close>

text \<open>
  C9. The option \<^verbatim>\<open>noplaylist\<close> that the download tool is given equals the
  argument \<^verbatim>\<open>isPlaylist\<close>. When the directory can be made, the Fetcher runs the
  download tool on the options built from its arguments, whose \<^verbatim>\<open>noplaylist\<close> is
  \<^verbatim>\<open>isPlaylist\<close>, and on the one url, and its outcome is the outcome of that run
  with an exception absorbed. \<^verbatim>\<open>download_playlist\<close> calls the Fetcher with
  \<^verbatim>\<open>isPlaylist=True\<close>, which sets the option to true, and \<^verbatim>\<open>download_video\<close>
  with \<^verbatim>\<open>isPlaylist=False\<close>, which sets it to false.
\<close>

theorem noplaylist_is_isPlaylist:
  "noplaylist (ydl_opts en path keep_audio_only isPlaylist) = isPlaylist \<and>
   download_playlist en url path keep_audio_only w =
     download_from_youtube en url path keep_audio_only True w \<and>
   noplaylist (ydl_opts en path keep_audio_only True) = True \<and>
   download_video en url path keep_audio_only w =
     download_from_youtube en url path keep_audio_only False w \<and>
   noplaylist (ydl_opts en path keep_audio_only False) = False \<and>
   (os_makedirs en path = None \<longrightarrow>
    run_ydl (progress_hooks (ydl_opts en path keep_audio_only isPlaylist))
      (youtube_dl en (ydl_opts en path keep_audio_only isPlaylist) [url])
      (write_debug [Lit (''Starting download for playlist: '' @ url)] w) = (r, w2) \<longrightarrow>
    download_from_youtube en url path keep_audio_only isPlaylist w =
      (Inr (),
       case r of
         Inl e \<Rightarrow> write_error [Lit (''Error downloading playlist: '' @ url @ '', ''), Str e] w2
       | Inr u \<Rightarrow> w2))"
  by (simp add: ydl_opts_def download_playlist_def download_video_def)
     (simp add: download_from_youtube_def ydl_opts_def Let_def split: sum.splits)

text \<open>
  A download tool that raises exactly when it is given \<^verbatim>\<open>noplaylist=True\<close> raises
  under \<^verbatim>\<open>download_playlist\<close> and returns under \<^verbatim>\<open>download_video\<close>.
\<close>

theorem noplaylist_is_isPlaylist_witness:
  "os_makedirs (example_env ffmpeg_ok noplaylist_probe) ''./out'' = None \<and>
   download_playlist (example_env ffmpeg_ok noplaylist_probe)
     ''https://example/playlist?list=abc'' ''./out'' True world0 =
   (Inr (), world0\<lparr>records :=
      [(DEBUG, [Lit ''Starting download for playlist: https://example/playlist?list=abc'']),
       (ERROR, [Lit ''Error downloading playlist: https://example/playlist?list=abc, '',
                Str (ToolError ''noplaylist is set'')])]\<rparr>) \<and>
   download_video (example_env ffmpeg_ok noplaylist_probe)
     ''https://example/playlist?list=abc'' ''./out'' True world0 =
   (Inr (), world0\<lparr>records :=
      [(DEBUG, [Lit ''Starting download for playlist: https://example/playlist?list=abc''])]\<rparr>)"
proof -
  let ?en = "example_env ffmpeg_ok noplaylist_probe"
  let ?url = "''https://example/playlist?list=abc''"
  let ?w1 = "write_debug [Lit (''Starting download for playlist: '' @ ?url)] world0"
  have m: "os_makedirs ?en ''./out'' = None" by (simp add: example_env_def)
  note t = noplaylist_is_isPlaylist [of ?en "''./out''" True True ?url world0
      "Inl (ToolError ''noplaylist is set'')" ?w1]
  note v = noplaylist_is_isPlaylist [of ?en "''./out''" True False ?url world0 "Inr ()" ?w1]
  have np: "noplaylist (ydl_opts ?en ''./out'' True True) = True"
    and nv: "noplaylist (ydl_opts ?en ''./out'' True False) = False"
    using t by simp_all
  have rp: "run_ydl (progress_hooks (ydl_opts ?en ''./out'' True True))
              (youtube_dl ?en (ydl_opts ?en ''./out'' True True) [?url]) ?w1 =
            (Inl (ToolError ''noplaylist is set''), ?w1)"
    using np by (simp add: example_env_def noplaylist_probe_def)
  have rv: "run_ydl (progress_hooks (ydl_opts ?en ''./out'' True False))
              (youtube_dl ?en (ydl_opts ?en ''./out'' True False) [?url]) ?w1 = (Inr (), ?w1)"
    using nv by (simp add: example_env_def noplaylist_probe_def)
  have p: "download_playlist ?en ?url ''./out'' True world0 =
           (Inr (), write_error [Lit (''Error downloading playlist: '' @ ?url @ '', ''),
                                Str (ToolError ''noplaylist is set'')] ?w1)"
    using t m rp by simp
  have d: "download_video ?en ?url ''./out'' True world0 = (Inr (), ?w1)"
    using v m rv by simp
  show ?thesis
    using m p d by (simp add: write_error_def write_debug_def world0_def)
qed

subsection \<open>C10\<close>

text \<open>
  C10. The output filename is cut at the last dot of the whole path: when nothing
  after a dot contains a dot (so also when what follows is a directory separator and
  a basename without dot), the output is what precedes that dot followed by
  \<^verbatim>\<open>.mp3\<close>; a filename without any dot gets \<^verbatim>\<open>.mp3\<close> appended; and
  \<^verbatim>\<open>./out/NoExtension\<close> gives \<^verbatim>\<open>.mp3\<close>.
\<close>

theorem output_filename_last_dot:
  "(CHR ''.'' \<notin> set rest \<longrightarrow> output_filename (pre @ ''.'' @ rest) = pre @ ''.mp3'') \<and>
   (CHR ''.'' \<notin> set f \<longrightarrow> output_filename f = f @ ''.mp3'') \<and>
   output_filename ''./out/NoExtension'' = ''.mp3''"
  using output_filename_ext [of rest pre] output_filename_no_dot [of f]
    output_filename_ext [of "''/out/NoExtension''" "[]"]
  by simp

theorem output_filename_last_dot_witness:
  "CHR ''.'' \<notin> set ''/out/NoExtension'' \<and>
   output_filename (''a/b'' @ ''.'' @ ''/out/NoExtension'') = ''a/b'' @ ''.mp3'' \<and>
   CHR ''.'' \<notin> set ''NoExtension'' \<and>
   output_filename ''NoExtension'' = ''NoExtension'' @ ''.mp3''"
  using output_filename_last_dot [of "''/out/NoExtension''" "''a/b''" "''NoExtension''"]
  by simp

end
